theory Spec2Isabelle
  imports Complex_Main "HOL-Library.Product_Lexorder"
begin

section \<open>JavaScript values used by the web client\<close>

text \<open>
  Strings are lists of code units; the model covers the code units below 256, where
  \<open>String.prototype.trim\<close> removes TAB, LF, VT, FF, CR, SPACE and NBSP from both ends.
  A value that may be \<open>undefined\<close> or \<open>null\<close> is an \<open>option\<close>; both are \<open>None\<close>,
  since the client only ever tests such values for truthiness. Numbers that arrive in a
  JSON reply are finite and are modelled as \<open>real\<close>: the client only compares them and
  takes minima and maxima, which are exact on doubles.
\<close>

definition is_js_space :: "char \<Rightarrow> bool" where
  "is_js_space c = ((of_char c :: nat) \<in> {9, 10, 11, 12, 13, 32, 160})"

definition trim :: "string \<Rightarrow> string" where
  "trim s = rev (dropWhile is_js_space (rev (dropWhile is_js_space s)))"

text \<open>Truthiness of an optional string (\<open>undefined\<close>, \<open>null\<close> and \<open>""\<close> are falsy)
  and of an optional boolean.\<close>

fun truthy_str :: "string option \<Rightarrow> bool" where
  "truthy_str None = False"
| "truthy_str (Some s) = (s \<noteq> [])"

fun truthy_bool :: "bool option \<Rightarrow> bool" where
  "truthy_bool None = False"
| "truthy_bool (Some b) = b"

text \<open>\<open>x || 0\<close> on an optional number.\<close>

fun or_zero :: "real option \<Rightarrow> real" where
  "or_zero None = 0"
| "or_zero (Some x) = (if x \<noteq> 0 then x else 0)"

text \<open>\<open>s.split(/[/\\]/).pop()\<close>: the part of \<open>s\<close> after its last slash or backslash.\<close>

definition is_path_sep :: "char \<Rightarrow> bool" where
  "is_path_sep c = (c = CHR ''/'' \<or> c = CHR 0x5C)"

definition split_pop :: "string \<Rightarrow> string" where
  "split_pop s = rev (takeWhile (\<lambda>c. \<not> is_path_sep c) (rev s))"

section \<open>lib/api: requests and replies\<close>

datatype json = JString string | JBoolean bool

datatype qval = QStr string | QNum nat

text \<open>A request as \<open>fetch\<close> receives it: the method, the URL path below the API base,
  the query parameters in the order they are appended, and the fields of the JSON body.\<close>

datatype request =
  Request (meth: string) (url: string) (query: "(string \<times> qval) list")
    (body: "(string \<times> json) list option")

text \<open>What \<open>fetch\<close> and \<open>res.json()\<close> deliver: \<open>fetch\<close> rejects (\<open>Thrown\<close>, with the
  error's message), or a response arrives with its \<open>ok\<close> flag and a body that parses
  (\<open>Inr\<close>) or makes \<open>res.json()\<close> reject (\<open>Inl\<close>, with the message).\<close>

datatype 'a reply = Thrown string | Response bool "string + 'a"

text \<open>The shared tail of every API function: \<open>if (!res.ok) throw new Error(msg);
  return res.json()\<close>. \<open>Inl\<close> is the message of the error thrown.\<close>

fun ok_json :: "string \<Rightarrow> 'a reply \<Rightarrow> string + 'a" where
  "ok_json msg (Thrown m) = Inl m"
| "ok_json msg (Response ok b) = (if \<not> ok then Inl msg else b)"

text \<open>A request fails when \<open>fetch\<close> rejects, the response is not ok, or its body does
  not parse.\<close>

fun request_failed :: "'a reply \<Rightarrow> bool" where
  "request_failed (Thrown m) = True"
| "request_failed (Response ok b) = (\<not> ok \<or> isl b)"

record scan_status =
  is_active :: "bool option"
  current_file :: "string option"
  progress_percent :: "real option"
  processed_count :: "real option"
  total_files :: "real option"
  eta_seconds :: "real option"
  error :: "string option"

definition startScan :: "string \<Rightarrow> bool \<Rightarrow> 'a reply \<Rightarrow> request \<times> (string + 'a)" where
  "startScan target_path force_reprocess r =
     (Request ''POST'' ''/scan/start'' []
        (Some [(''target_path'', JString target_path),
               (''force_reprocess'', JBoolean force_reprocess)]),
      ok_json ''Failed to start scan'' r)"

definition getScanStatus :: "'a reply \<Rightarrow> request \<times> (string + 'a)" where
  "getScanStatus r =
     (Request ''GET'' ''/scan/status'' [] None, ok_json ''Failed to fetch scan status'' r)"

section \<open>components/ScanUI\<close>

record scanui =
  path :: string
  forceReprocess :: bool
  status :: "scan_status option"
  ui_error :: string
  starting :: bool

text \<open>One round of \<open>fetchStatus\<close>: the status is stored when the poll succeeds; the
  delay to the next poll is 1000 ms while a scan is active and 8000 ms otherwise.\<close>

definition fetchStatus :: "scanui \<Rightarrow> scan_status option reply \<Rightarrow> scanui \<times> request list \<times> nat" where
  "fetchStatus s r =
     (case getScanStatus r of
        (req, Inr data) \<Rightarrow>
          (s\<lparr>status := data\<rparr>, [req],
           if truthy_bool (case data of None \<Rightarrow> None | Some d \<Rightarrow> is_active d)
           then 1000 else 8000)
      | (req, Inl _) \<Rightarrow> (s, [req], 8000))"

text \<open>\<open>handleStart\<close>: returns at once on a blank path; otherwise one \<open>startScan\<close> call,
  whose failure is stored as \<open>err.message || "Failed to start scan"\<close>.\<close>

definition handleStart :: "scanui \<Rightarrow> 'a reply \<Rightarrow> scanui \<times> request list" where
  "handleStart s r =
     (if trim (path s) = [] then (s, [])
      else
        let s1 = s\<lparr>starting := True, ui_error := []\<rparr> in
        (case startScan (trim (path s)) (forceReprocess s) r of
           (req, Inr _) \<Rightarrow> (s1\<lparr>starting := False\<rparr>, [req])
         | (req, Inl m) \<Rightarrow>
             (s1\<lparr>ui_error := (if m \<noteq> [] then m else ''Failed to start scan''),
                 starting := False\<rparr>, [req])))"

text \<open>The text of \<open>formatETA\<close>: \<open>"--:--"\<close>, or \<open>`${m}m ${s}s`\<close> for positive seconds.
  The minutes and seconds are \<open>Math.floor(seconds / 60)\<close> and \<open>Math.floor(seconds % 60)\<close>
  in double arithmetic, which the model does not compute: the label carries the seconds
  they are computed from.\<close>

datatype eta_text = EtaUnknown | EtaMinSec real

definition formatETA :: "real option \<Rightarrow> eta_text" where
  "formatETA seconds =
     (case seconds of
        None \<Rightarrow> EtaUnknown
      | Some x \<Rightarrow> if x = 0 \<or> x \<le> 0 then EtaUnknown else EtaMinSec x)"

datatype pct_text = PctZero | PctFixed1 real

record start_button =
  btn_disabled :: bool
  btn_spinner :: bool

record progress_view =
  scanning_label :: string
  percent_label :: pct_text
  bar_width :: real
  files_done :: real
  files_total :: real
  eta_label :: eta_text

record scan_view =
  path_disabled :: bool
  force_disabled :: bool
  start_error_banner :: "string option"
  scan_error_banner :: "string option"
  start_btn :: "start_button option"
  progress :: "progress_view option"

text \<open>Optional chaining \<open>status?.field\<close>.\<close>

definition chain :: "scan_status option \<Rightarrow> (scan_status \<Rightarrow> 'a option) \<Rightarrow> 'a option" where
  "chain st f = (case st of None \<Rightarrow> None | Some d \<Rightarrow> f d)"

definition render_progress :: "scan_status option \<Rightarrow> progress_view" where
  "render_progress st =
     \<lparr>scanning_label =
        (case chain st current_file of
           None \<Rightarrow> ''Preparing...''
         | Some f \<Rightarrow> if f \<noteq> [] then split_pop f else ''Preparing...''),
      percent_label =
        (case chain st progress_percent of None \<Rightarrow> PctZero | Some p \<Rightarrow> PctFixed1 p),
      bar_width = min 100 (max 0 (or_zero (chain st progress_percent))),
      files_done = or_zero (chain st processed_count),
      files_total = or_zero (chain st total_files),
      eta_label = formatETA (chain st eta_seconds)\<rparr>"

definition render :: "scanui \<Rightarrow> scan_view" where
  "render s =
     \<lparr>path_disabled = truthy_bool (chain (status s) is_active),
      force_disabled = truthy_bool (chain (status s) is_active),
      start_error_banner = (if ui_error s \<noteq> [] then Some (ui_error s) else None),
      scan_error_banner =
        (case chain (status s) error of
           None \<Rightarrow> None
         | Some e \<Rightarrow> if e \<noteq> [] then Some (''Background Scan Error: '' @ e) else None),
      start_btn =
        (if \<not> truthy_bool (chain (status s) is_active)
         then Some \<lparr>btn_disabled = (starting s \<or> trim (path s) = []),
                    btn_spinner = starting s\<rparr>
         else None),
      progress =
        (if \<not> truthy_bool (chain (status s) is_active) then None
         else Some (render_progress (status s)))\<rparr>"

section \<open>lib/api: gallery items, search and chat\<close>

text \<open>\<open>MediaItem\<close> as declared in lib/api (its two untyped \<open>any[]\<close> fields, which no
  component reads, are left out).\<close>

record media_item =
  item_id :: int
  file_path :: string
  media_type :: string
  width :: "real option"
  height :: "real option"
  tags :: "string list"
  character_tags :: "string list"
  series_tags :: "string list"
  snippet :: "string option"

record fetch_options =
  opt_limit :: "nat option"
  opt_offset :: "nat option"
  opt_character :: "string option"
  opt_series :: "string option"
  opt_tag :: "string option"
  opt_media_type :: "string option"

text \<open>\<open>if (options.x) params.append("x", ...)\<close>: a parameter is appended only when its
  value is truthy, so a limit or offset of 0 and an empty string are left out.\<close>

definition num_param :: "string \<Rightarrow> nat option \<Rightarrow> (string \<times> qval) list" where
  "num_param k v = (case v of None \<Rightarrow> [] | Some n \<Rightarrow> if n \<noteq> 0 then [(k, QNum n)] else [])"

definition str_param :: "string \<Rightarrow> string option \<Rightarrow> (string \<times> qval) list" where
  "str_param k v = (if truthy_str v then [(k, QStr (the v))] else [])"

definition fetchMedia :: "fetch_options \<Rightarrow> 'a reply \<Rightarrow> request \<times> (string + 'a)" where
  "fetchMedia options r =
     (Request ''GET'' ''/gallery/''
        (num_param ''limit'' (opt_limit options) @ num_param ''offset'' (opt_offset options) @
         str_param ''character'' (opt_character options) @
         str_param ''series'' (opt_series options) @
         str_param ''tag'' (opt_tag options) @
         str_param ''media_type'' (opt_media_type options)) None,
      ok_json ''Failed to fetch media'' r)"

definition searchMedia :: "string \<Rightarrow> nat \<Rightarrow> 'a reply \<Rightarrow> request \<times> (string + 'a)" where
  "searchMedia q top_k r =
     (Request ''POST'' ''/gallery/search'' [(''query'', QStr q), (''top_k'', QNum top_k)] None,
      ok_json ''Search failed'' r)"

text \<open>\<open>chatWithImage\<close>: the reply's body is the \<open>answer\<close> field of the parsed JSON.\<close>

definition chatWithImage :: "string \<Rightarrow> string \<Rightarrow> string reply \<Rightarrow> request \<times> (string + string)" where
  "chatWithImage fp prompt r =
     (Request ''POST'' ''/gallery/chat'' []
        (Some [(''file_path'', JString fp), (''prompt'', JString prompt)]),
      ok_json ''Chat failed'' r)"

section \<open>components/ChatPanel\<close>

datatype role = User | Assistant

record message =
  msg_role :: role
  content :: string

record chatpanel =
  messages :: "message list"
  input :: string
  isLoading :: bool

definition greeting :: message where
  "greeting = \<lparr>msg_role = Assistant,
     content = ''Hi! I'm analyzing this image. What would you like to know?''\<rparr>"

definition chat_error_message :: message where
  "chat_error_message = \<lparr>msg_role = Assistant,
     content = ''Sorry, I encountered an error while analyzing the image.''\<rparr>"

text \<open>The effect that runs when the \<open>item\<close> prop changes: \<open>setMessages([])\<close>, then the
  greeting when an item is selected.\<close>

definition item_effect :: "media_item option \<Rightarrow> chatpanel \<Rightarrow> chatpanel" where
  "item_effect item s =
     (case item of
        None \<Rightarrow> s\<lparr>messages := []\<rparr>
      | Some _ \<Rightarrow> s\<lparr>messages := [greeting]\<rparr>)"

text \<open>\<open>handleSend\<close> exists only below \<open>if (!item) return null\<close>, so its item is not null.\<close>

definition handleSend :: "media_item \<Rightarrow> chatpanel \<Rightarrow> string reply \<Rightarrow> chatpanel \<times> request list" where
  "handleSend item s r =
     (if trim (input s) = [] \<or> isLoading s then (s, [])
      else
        let userMessage = trim (input s);
            s1 = s\<lparr>input := [],
                   messages := messages s @ [\<lparr>msg_role = User, content = userMessage\<rparr>],
                   isLoading := True\<rparr>
        in
        (case chatWithImage (file_path item) userMessage r of
           (req, Inr response) \<Rightarrow>
             (s1\<lparr>messages := messages s1 @ [\<lparr>msg_role = Assistant, content = response\<rparr>],
                 isLoading := False\<rparr>, [req])
         | (req, Inl _) \<Rightarrow>
             (s1\<lparr>messages := messages s1 @ [chat_error_message], isLoading := False\<rparr>,
              [req])))"

section \<open>components/GalleryGrid\<close>

record card_view =
  thumbnail_hidden :: bool
  video_preview :: bool
  video_badge :: bool
  tag_chips :: "string list"
  snippet_block :: "string option"

text \<open>\<open>MediaCard\<close>: the snippet block is \<open>{item.snippet && (...)}\<close>.\<close>

definition MediaCard :: "media_item \<Rightarrow> bool \<Rightarrow> card_view" where
  "MediaCard item isHovered =
     \<lparr>thumbnail_hidden = (isHovered \<and> media_type item = ''video''),
      video_preview = (isHovered \<and> media_type item = ''video''),
      video_badge = (media_type item = ''video'' \<and> \<not> isHovered),
      tag_chips = (if length (character_tags item) > 0 then take 2 (character_tags item) else []),
      snippet_block = (if truthy_str (snippet item) then snippet item else None)\<rparr>"

section \<open>components/Sidebar: the filters handed to the page\<close>

record filter_state =
  flt_character :: "string option"
  flt_series :: "string option"
  flt_media_type :: "string option"

record sidebar =
  selectedCharacter :: string
  selectedSeries :: string
  selectedMediaType :: string

definition all_to_undefined :: "string \<Rightarrow> string option" where
  "all_to_undefined v = (if v = ''All'' then None else Some v)"

definition handleFilterUpdate :: "sidebar \<Rightarrow> string \<Rightarrow> string \<Rightarrow> sidebar \<times> filter_state" where
  "handleFilterUpdate s type val =
     (let s1 = (if type = ''character'' then s\<lparr>selectedCharacter := val\<rparr> else s);
          s2 = (if type = ''series'' then s1\<lparr>selectedSeries := val\<rparr> else s1);
          s3 = (if type = ''media'' then s2\<lparr>selectedMediaType := val\<rparr> else s2)
      in (s3,
          \<lparr>flt_character =
             all_to_undefined (if type = ''character'' then val else selectedCharacter s),
           flt_series = all_to_undefined (if type = ''series'' then val else selectedSeries s),
           flt_media_type =
             all_to_undefined (if type = ''media'' then val else selectedMediaType s)\<rparr>))"

section \<open>app/page: Home\<close>

record home =
  media :: "media_item list"
  selectedItem :: "media_item option"
  loading :: bool
  home_error :: string
  filters :: filter_state
  currentSearch :: string
  offset :: nat
  hasMore :: bool
  isLoadingMore :: bool

definition loadMedia :: "home \<Rightarrow> nat \<Rightarrow> filter_state \<Rightarrow> media_item list reply \<Rightarrow> home \<times> request list" where
  "loadMedia s currentOffset currentFilters r =
     (let s1 = (if currentOffset = 0 then s\<lparr>loading := True\<rparr> else s\<lparr>isLoadingMore := True\<rparr>);
          limit = 50;
          call = fetchMedia
                   \<lparr>opt_limit = Some limit, opt_offset = Some currentOffset,
                    opt_character = flt_character currentFilters,
                    opt_series = flt_series currentFilters, opt_tag = None,
                    opt_media_type = flt_media_type currentFilters\<rparr> r;
          s2 = (case snd call of
                  Inr data \<Rightarrow>
                    s1\<lparr>media := (if currentOffset = 0 then data else media s1 @ data),
                       hasMore := (length data = limit)\<rparr>
                | Inl _ \<Rightarrow> s1\<lparr>home_error := ''Failed to load gallery.''\<rparr>)
      in (if currentOffset = 0 then s2\<lparr>loading := False\<rparr> else s2\<lparr>isLoadingMore := False\<rparr>,
          [fst call]))"

definition handleLoadMore :: "home \<Rightarrow> media_item list reply \<Rightarrow> home \<times> request list" where
  "handleLoadMore s r =
     (if currentSearch s = [] \<and> hasMore s \<and> \<not> loading s \<and> \<not> isLoadingMore s
      then let nextOffset = offset s + 50
           in loadMedia (s\<lparr>offset := nextOffset\<rparr>) nextOffset (filters s) r
      else (s, []))"

text \<open>The sidebar's \<open>onFilterChange\<close> followed by the effect on \<open>[filters]\<close>.\<close>

definition onFilterChange :: "home \<Rightarrow> filter_state \<Rightarrow> media_item list reply \<Rightarrow> home \<times> request list" where
  "onFilterChange s f r =
     (let s1 = s\<lparr>filters := f\<rparr>
      in if currentSearch s1 = [] then loadMedia (s1\<lparr>offset := 0\<rparr>) 0 f r else (s1, []))"

text \<open>The page's initial state (the arguments of its \<open>useState\<close> calls) and its mount,
  where the effect on \<open>[filters]\<close> runs for the first time.\<close>

definition initial_home :: home where
  "initial_home =
     \<lparr>media = [], selectedItem = None, loading = True, home_error = [],
      filters = \<lparr>flt_character = None, flt_series = None, flt_media_type = None\<rparr>,
      currentSearch = [], offset = 0, hasMore = True, isLoadingMore = False\<rparr>"

definition mount :: "media_item list reply \<Rightarrow> home \<times> request list" where
  "mount r = onFilterChange initial_home (filters initial_home) r"

text \<open>The three client-side filters of \<open>handleSearch\<close>, each applied only when its
  filter value is truthy.\<close>

definition filterResults :: "filter_state \<Rightarrow> media_item list \<Rightarrow> media_item list" where
  "filterResults f results =
     (let r1 = (if truthy_str (flt_media_type f)
                then filter (\<lambda>r. media_type r = the (flt_media_type f)) results else results);
          r2 = (if truthy_str (flt_character f)
                then filter (\<lambda>r. the (flt_character f) \<in> set (character_tags r)) r1 else r1)
      in if truthy_str (flt_series f)
         then filter (\<lambda>r. the (flt_series f) \<in> set (series_tags r)) r2 else r2)"

definition handleSearch :: "home \<Rightarrow> string \<Rightarrow> media_item list reply \<Rightarrow> home \<times> request list" where
  "handleSearch s q r =
     (let s0 = s\<lparr>currentSearch := q\<rparr> in
      if trim q = [] then loadMedia (s0\<lparr>offset := 0\<rparr>) 0 (filters s) r
      else
        let s1 = s0\<lparr>loading := True\<rparr> in
        (case searchMedia q 50 r of
           (req, Inr results) \<Rightarrow>
             (s1\<lparr>media := filterResults (filters s) results, selectedItem := None,
                 hasMore := False, loading := False\<rparr>, [req])
         | (req, Inl _) \<Rightarrow> (s1\<lparr>home_error := ''Search failed.'', loading := False\<rparr>, [req])))"

datatype main_view = LoadingView | ErrorView string | GridView "media_item list" bool

definition main_area :: "home \<Rightarrow> main_view" where
  "main_area s =
     (if loading s then LoadingView
      else if home_error s \<noteq> [] then ErrorView (home_error s)
      else GridView (media s) (hasMore s))"

text \<open>\<open>GalleryGrid\<close>'s scroll effect: \<open>if (inView && hasMore && onLoadMore) onLoadMore()\<close>.\<close>

definition scroll_effect :: "bool \<Rightarrow> home \<Rightarrow> media_item list reply \<Rightarrow> home \<times> request list" where
  "scroll_effect inView s r = (if inView \<and> hasMore s then handleLoadMore s r else (s, []))"

section \<open>components/gallery/Gallery\<close>

record query_key =
  qk_q :: "string option"
  qk_character :: "string option"
  qk_series :: "string option"
  qk_media_type :: "string option"

definition not_all_param :: "string \<Rightarrow> string option \<Rightarrow> (string \<times> qval) list" where
  "not_all_param k v = (if truthy_str v \<and> v \<noteq> Some ''All'' then [(k, QStr (the v))] else [])"

definition fetchGallery :: "nat \<Rightarrow> query_key \<Rightarrow> media_item list reply \<Rightarrow> request \<times> (string + media_item list)" where
  "fetchGallery pageParam key r =
     (if truthy_str (qk_q key) then
        (Request ''POST'' ''/api/gallery/search''
           [(''query'', QStr (the (qk_q key))), (''top_k'', QNum 50)] None,
         case ok_json ''Network response was not ok'' r of
           Inl e \<Rightarrow> Inl e
         | Inr items \<Rightarrow> if pageParam = 0 then Inr items else Inr [])
      else
        (Request ''GET'' ''/api/gallery/''
           ([(''limit'', QNum 50), (''offset'', QNum pageParam)] @
            not_all_param ''character'' (qk_character key) @
            not_all_param ''series'' (qk_series key) @
            str_param ''media_type'' (qk_media_type key)) None,
         ok_json ''Network response was not ok'' r))"

definition getNextPageParam :: "query_key \<Rightarrow> media_item list \<Rightarrow> media_item list list \<Rightarrow> nat option" where
  "getNextPageParam key lastPage allPages =
     (if truthy_str (qk_q key) then None
      else if length lastPage < 50 then None
      else Some (length allPages * 50))"

section \<open>The server side, modelled from the specification\<close>

text \<open>
  The scanner, the two stores and the query engine are not among the sources of the web
  client. The definitions of this section follow the words of the specification
  (sections 3, 4.1, 4.3 and 4.4); each says which part it stands for.
\<close>

subsection \<open>ScanJob\<close>

datatype job_state = Idle | Scanning | Completed | JobFailed

record scan_job =
  job_state :: job_state
  job_current_file :: "string option"
  job_processed_count :: nat
  job_total_files :: nat
  error_message :: "string option"

datatype start_error = JobAlreadyRunning | InvalidTargetPath

text \<open>Modelled from the spec: the transition \<open>idle \<rightarrow> scanning\<close> of the server's scan
  orchestrator, which is missing from the sources. It requires that no job is active and
  otherwise fails with \<open>JobAlreadyRunning\<close>, doing no filesystem work; an invalid or
  inaccessible target path fails before any state transition; \<open>completed\<close> and \<open>error\<close>
  return to \<open>idle\<close> on the next start; \<open>total_files\<close> is counted once, by a full
  traversal at the start. \<open>traverse\<close> stands for the filesystem (\<open>None\<close>: the path cannot be
  read); the second result lists the paths traversed.\<close>

definition start_scan :: "(string \<Rightarrow> string list option) \<Rightarrow> scan_job \<Rightarrow> string \<Rightarrow> (start_error + scan_job) \<times> string list" where
  "start_scan traverse job target_path =
     (if job_state job = Scanning then (Inl JobAlreadyRunning, [])
      else
        (case traverse target_path of
           None \<Rightarrow> (Inl InvalidTargetPath, [target_path])
         | Some files \<Rightarrow>
             (Inr \<lparr>job_state = Scanning, job_current_file = None, job_processed_count = 0,
                   job_total_files = length files, error_message = None\<rparr>,
              [target_path])))"

subsection \<open>Metadata Store and Vector Index\<close>

datatype proc_status = Pending | Processed | Failed

record media_file =
  mf_id :: nat
  mf_path :: string
  mf_hash :: nat
  mf_status :: proc_status

text \<open>What an EmbeddingRecord belongs to: the MediaFile itself (an image-level match), a
  keyframe description (frame timestamp and description) or a transcript chunk (start, end
  and the words).\<close>

datatype rec_owner =
  WholeFile
| KeyframeDescription real string
| TranscriptChunk real real string

record embedding_record =
  emb_id :: nat
  emb_file :: nat
  emb_owner :: rec_owner

text \<open>Modelled from the spec: the dual store, missing from the sources. The Metadata Store
  holds the MediaFile rows and the EmbeddingRecord rows, each with its one owner; the
  Vector Index holds the vectors by id, keyed to the MediaFile row they belong to.\<close>

record stores =
  media_files :: "media_file list"
  embedding_records :: "embedding_record list"
  vector_index :: "(nat \<times> nat \<times> real list) list"
  next_id :: nat

definition empty_stores :: stores where
  "empty_stores = \<lparr>media_files = [], embedding_records = [], vector_index = [], next_id = 0\<rparr>"

definition find_file :: "stores \<Rightarrow> string \<Rightarrow> media_file option" where
  "find_file st p = find (\<lambda>r. mf_path r = p) (media_files st)"

text \<open>The ids of the EmbeddingRecords reachable from a MediaFile in the Metadata Store, and
  the ids present in the Vector Index for it.\<close>

definition metadata_ids :: "stores \<Rightarrow> nat \<Rightarrow> nat list" where
  "metadata_ids st f = map emb_id (filter (\<lambda>e. emb_file e = f) (embedding_records st))"

definition index_ids :: "stores \<Rightarrow> nat \<Rightarrow> nat list" where
  "index_ids st f = map fst (filter (\<lambda>e. fst (snd e) = f) (vector_index st))"

definition consistent :: "stores \<Rightarrow> bool" where
  "consistent st =
     (\<forall>r \<in> set (media_files st).
        mf_status r = Processed \<longrightarrow>
          set (metadata_ids st (mf_id r)) = set (index_ids st (mf_id r)))"

text \<open>Modelled from the spec: the Fingerprint Store's policy (section 4.1), missing from
  the sources: an unseen path is processed; a seen, unchanged one is skipped unless
  force-reprocess is set; a changed one is reprocessed.\<close>

definition needs_processing :: "stores \<Rightarrow> string \<Rightarrow> nat \<Rightarrow> bool \<Rightarrow> bool" where
  "needs_processing st p h force =
     (case find_file st p of
        None \<Rightarrow> True
      | Some r \<Rightarrow> force \<or> mf_hash r \<noteq> h)"

definition upsert_row :: "string \<Rightarrow> nat \<Rightarrow> proc_status \<Rightarrow> stores \<Rightarrow> stores" where
  "upsert_row p h new_status st =
     (case find_file st p of
        Some _ \<Rightarrow>
          st\<lparr>media_files :=
               map (\<lambda>r. if mf_path r = p then r\<lparr>mf_hash := h, mf_status := new_status\<rparr> else r)
                 (media_files st)\<rparr>
      | None \<Rightarrow>
          st\<lparr>media_files :=
               media_files st @ [\<lparr>mf_id = next_id st, mf_path = p, mf_hash = h,
                   mf_status = new_status\<rparr>],
             next_id := next_id st + 1\<rparr>)"

definition delete_old :: "nat \<Rightarrow> stores \<Rightarrow> stores" where
  "delete_old f st =
     st\<lparr>embedding_records := filter (\<lambda>e. emb_file e \<noteq> f) (embedding_records st),
        vector_index := filter (\<lambda>e. fst (snd e) \<noteq> f) (vector_index st)\<rparr>"

definition insert_records :: "nat \<Rightarrow> (rec_owner \<times> real list) list \<Rightarrow> stores \<Rightarrow> stores" where
  "insert_records f xs st =
     st\<lparr>embedding_records :=
          embedding_records st @
          map (\<lambda>(i, ow, v). \<lparr>emb_id = i, emb_file = f, emb_owner = ow\<rparr>)
            (enumerate (next_id st) xs)\<rparr>"

definition insert_vectors :: "nat \<Rightarrow> (rec_owner \<times> real list) list \<Rightarrow> stores \<Rightarrow> stores" where
  "insert_vectors f xs st =
     st\<lparr>vector_index :=
          vector_index st @ map (\<lambda>(i, ow, v). (i, f, v)) (enumerate (next_id st) xs),
        next_id := next_id st + length xs\<rparr>"

text \<open>Modelled from the spec: the write steps of the per-file atomic unit (section 4.3,
  step 3), missing from the sources, in their order: upsert the MediaFile row; delete the
  file's previous generation of records; insert the new EmbeddingRecords; insert the
  vectors into the Vector Index.\<close>

definition write_step :: "nat \<Rightarrow> string \<Rightarrow> nat \<Rightarrow> (rec_owner \<times> real list) list \<Rightarrow> stores \<Rightarrow> stores" where
  "write_step k p h xs st =
     (if k = 0 then upsert_row p h Processed st
      else
        (case find_file st p of
           None \<Rightarrow> st
         | Some r \<Rightarrow>
             if k = 1 then delete_old (mf_id r) st
             else if k = 2 then insert_records (mf_id r) xs st
             else if k = 3 then insert_vectors (mf_id r) xs st
             else st))"

record unit_of_work =
  u_path :: string
  u_hash :: nat
  u_records :: "(rec_owner \<times> real list) list"
  u_done :: nat
  u_working :: stores

record orchestrator =
  committed :: stores
  open_unit :: "unit_of_work option"

datatype event =
  Discover string nat bool "string + (rec_owner \<times> real list) list"
| WriteStep
| Commit
| Crash

text \<open>Modelled from the spec: the scan orchestrator's work on one discovered file
  (section 4.3, steps 1 to 5), missing from the sources. \<open>Discover\<close> consults the
  fingerprint and skips without a write, or marks the file failed when its extraction
  failed, or opens the atomic unit on a working copy of the stores; \<open>WriteStep\<close> performs
  the unit's next write; \<open>Commit\<close> makes a finished unit the stores' state; \<open>Crash\<close> may
  come at any moment and loses an unfinished unit, as an atomic unit demands.\<close>

definition step :: "orchestrator \<Rightarrow> event \<Rightarrow> orchestrator" where
  "step s e =
     (case e of
        Discover p h force extracted \<Rightarrow>
          (if open_unit s \<noteq> None then s
           else if \<not> needs_processing (committed s) p h force then s
           else
             (case extracted of
                Inl _ \<Rightarrow> s\<lparr>committed := upsert_row p h Failed (committed s)\<rparr>
              | Inr xs \<Rightarrow>
                  s\<lparr>open_unit :=
                       Some \<lparr>u_path = p, u_hash = h, u_records = xs, u_done = 0,
                             u_working = committed s\<rparr>\<rparr>))
      | WriteStep \<Rightarrow>
          (case open_unit s of
             None \<Rightarrow> s
           | Some u \<Rightarrow>
               if u_done u < 4
               then s\<lparr>open_unit :=
                         Some (u\<lparr>u_working :=
                                    write_step (u_done u) (u_path u) (u_hash u) (u_records u)
                                      (u_working u),
                                  u_done := u_done u + 1\<rparr>)\<rparr>
               else s)
      | Commit \<Rightarrow>
          (case open_unit s of
             None \<Rightarrow> s
           | Some u \<Rightarrow>
               if u_done u = 4 then s\<lparr>committed := u_working u, open_unit := None\<rparr> else s)
      | Crash \<Rightarrow> s\<lparr>open_unit := None\<rparr>)"

definition run :: "event list \<Rightarrow> orchestrator" where
  "run evs = foldl step \<lparr>committed = empty_stores, open_unit = None\<rparr> evs"

text \<open>The agreement of section 3 of the specification: for every MediaFile, the ids that
  the Metadata Store reaches from it are the ids the Vector Index holds for it.\<close>

definition agree :: "stores \<Rightarrow> bool" where
  "agree st = (\<forall>f. set (metadata_ids st f) = set (index_ids st f))"

text \<open>The first \<open>k\<close> write steps of a unit, and the invariant of the orchestrator: the
  stores agree, and an open unit's working copy is the stores after the writes done so
  far.\<close>

definition writes :: "nat \<Rightarrow> string \<Rightarrow> nat \<Rightarrow> (rec_owner \<times> real list) list \<Rightarrow> stores \<Rightarrow> stores" where
  "writes k p h xs st = fold (\<lambda>i. write_step i p h xs) [0..<k] st"

definition unit_ok :: "orchestrator \<Rightarrow> bool" where
  "unit_ok s =
     (agree (committed s) \<and>
      (case open_unit s of
         None \<Rightarrow> True
       | Some u \<Rightarrow>
           u_done u \<le> 4 \<and>
           u_working u = writes (u_done u) (u_path u) (u_hash u) (u_records u) (committed s)))"

subsection \<open>Query Engine\<close>

fun segment_text :: "rec_owner \<Rightarrow> string option" where
  "segment_text WholeFile = None"
| "segment_text (KeyframeDescription _ t) = Some t"
| "segment_text (TranscriptChunk _ _ t) = Some t"

record search_item =
  si_file :: nat
  si_score :: real
  si_snippet :: "string option"

text \<open>Modelled from the spec: steps 3 to 5 of the Query Engine's search (section 4.4),
  missing from the sources, on the records retrieved from the Vector Index with their
  scores: of the records of one MediaFile only the highest-scoring is kept; the text of a
  winning record that belongs to a description or transcript Segment is attached as the
  snippet; the results are ordered by descending score, ties by MediaFile id.\<close>

definition wins :: "(embedding_record \<times> real) list \<Rightarrow> embedding_record \<times> real \<Rightarrow> bool" where
  "wins cands c = (\<forall>d \<in> set cands. emb_file (fst d) = emb_file (fst c) \<longrightarrow> snd d \<le> snd c)"

fun first_per_file :: "nat list \<Rightarrow> (embedding_record \<times> real) list \<Rightarrow> (embedding_record \<times> real) list" where
  "first_per_file seen [] = []"
| "first_per_file seen (c # cs) =
     (if emb_file (fst c) \<in> set seen then first_per_file seen cs
      else c # first_per_file (emb_file (fst c) # seen) cs)"

definition search_results :: "(embedding_record \<times> real) list \<Rightarrow> search_item list" where
  "search_results cands =
     sort_key (\<lambda>i. (- si_score i, si_file i))
       (map (\<lambda>c. \<lparr>si_file = emb_file (fst c), si_score = snd c,
                    si_snippet = segment_text (emb_owner (fst c))\<rparr>)
          (first_per_file [] (filter (wins cands) cands)))"

section \<open>Properties of the scan panel\<close>

lemma all_dropWhile: "(\<forall>x \<in> set (dropWhile P xs). P x) \<longleftrightarrow> (\<forall>x \<in> set xs. P x)"
proof
  assume a: "\<forall>x \<in> set (dropWhile P xs). P x"
  have "dropWhile P xs = []"
  proof (rule ccontr)
    assume n: "dropWhile P xs \<noteq> []"
    then have "\<not> P (hd (dropWhile P xs))" by (rule hd_dropWhile)
    moreover have "hd (dropWhile P xs) \<in> set (dropWhile P xs)" using n by simp
    ultimately show False using a by blast
  qed
  then show "\<forall>x \<in> set xs. P x" by (simp add: dropWhile_eq_Nil_conv)
next
  assume "\<forall>x \<in> set xs. P x"
  then show "\<forall>x \<in> set (dropWhile P xs). P x" by (auto dest: set_dropWhileD)
qed

lemma trim_eq_Nil: "trim p = [] \<longleftrightarrow> (\<forall>c \<in> set p. is_js_space c)"
proof -
  have "trim p = [] \<longleftrightarrow> (\<forall>x \<in> set (rev (dropWhile is_js_space p)). is_js_space x)"
    by (simp add: trim_def dropWhile_eq_Nil_conv)
  also have "\<dots> \<longleftrightarrow> (\<forall>x \<in> set (dropWhile is_js_space p). is_js_space x)" by simp
  also have "\<dots> \<longleftrightarrow> (\<forall>c \<in> set p. is_js_space c)" by (rule all_dropWhile)
  finally show ?thesis .
qed

lemma trim_not_blank: "trim p \<noteq> [] \<Longrightarrow> \<exists>c \<in> set (trim p). \<not> is_js_space c"
proof -
  assume n: "trim p \<noteq> []"
  let ?ys = "dropWhile is_js_space (rev (dropWhile is_js_space p))"
  from n have ne: "?ys \<noteq> []" by (simp add: trim_def)
  then have "\<not> is_js_space (hd ?ys)" by (rule hd_dropWhile)
  moreover have "hd ?ys \<in> set (trim p)" using ne by (simp add: trim_def)
  ultimately show ?thesis by blast
qed

lemma handleStart_requests:
  "req \<in> set (snd (handleStart s r)) \<Longrightarrow>
     trim (path s) \<noteq> [] \<and>
     req = Request ''POST'' ''/scan/start'' []
             (Some [(''target_path'', JString (trim (path s))),
                    (''force_reprocess'', JBoolean (forceReprocess s))])"
  by (auto simp: handleStart_def startScan_def Let_def split: if_splits sum.splits)

text \<open>
  Claim C2. At most one scan is active. On the server (modelled from the specification),
  starting a scan while the job is scanning fails with \<open>JobAlreadyRunning\<close>: no new job
  state is produced, so nothing is queued or preempted, and no path is traversed. In the
  client, whenever the polled status has \<open>is_active = true\<close> the Start button is not
  rendered and both the path input and the force-reprocess checkbox are disabled.
\<close>

theorem single_active_scan:
  "(job_state job = Scanning \<longrightarrow>
      start_scan traverse job target = (Inl JobAlreadyRunning, [])) \<and>
   (status s = Some d \<and> is_active d = Some True \<longrightarrow>
      start_btn (render s) = None \<and> path_disabled (render s) \<and> force_disabled (render s))"
  by (simp add: start_scan_def render_def chain_def)

theorem single_active_scan_witness:
  "start_scan (\<lambda>p. Some [''a.png'', ''b.mp4''])
      \<lparr>job_state = Scanning, job_current_file = Some ''a.png'', job_processed_count = 1,
       job_total_files = 2, error_message = None\<rparr> ''/data''
     = (Inl JobAlreadyRunning, []) \<and>
   start_btn (render \<lparr>path = ''/data'', forceReprocess = False,
       status = Some \<lparr>is_active = Some True, current_file = Some ''/data/a.png'',
                      progress_percent = Some 50, processed_count = Some 1,
                      total_files = Some 2, eta_seconds = Some 3, error = None\<rparr>,
       ui_error = [], starting = False\<rparr>) = None \<and>
   path_disabled (render \<lparr>path = ''/data'', forceReprocess = False,
       status = Some \<lparr>is_active = Some True, current_file = Some ''/data/a.png'',
                      progress_percent = Some 50, processed_count = Some 1,
                      total_files = Some 2, eta_seconds = Some 3, error = None\<rparr>,
       ui_error = [], starting = False\<rparr>) \<and>
   force_disabled (render \<lparr>path = ''/data'', forceReprocess = False,
       status = Some \<lparr>is_active = Some True, current_file = Some ''/data/a.png'',
                      progress_percent = Some 50, processed_count = Some 1,
                      total_files = Some 2, eta_seconds = Some 3, error = None\<rparr>,
       ui_error = [], starting = False\<rparr>)"
  using single_active_scan[of
      "\<lparr>job_state = Scanning, job_current_file = Some ''a.png'', job_processed_count = 1,
       job_total_files = 2, error_message = None\<rparr>"
      "\<lambda>p. Some [''a.png'', ''b.mp4'']" "''/data''"
      "\<lparr>path = ''/data'', forceReprocess = False,
       status = Some \<lparr>is_active = Some True, current_file = Some ''/data/a.png'',
                      progress_percent = Some 50, processed_count = Some 1,
                      total_files = Some 2, eta_seconds = Some 3, error = None\<rparr>,
       ui_error = [], starting = False\<rparr>"
      "\<lparr>is_active = Some True, current_file = Some ''/data/a.png'',
                      progress_percent = Some 50, processed_count = Some 1,
                      total_files = Some 2, eta_seconds = Some 3, error = None\<rparr>"]
  by simp

text \<open>
  Claim C3, as stated, at a status whose error is set to the empty string while the scan
  is reported active: the error is set, yet no banner is rendered, and the progress view
  is all there is to see.
\<close>

theorem empty_error_no_banner:
  "error \<lparr>is_active = Some True, current_file = None, progress_percent = Some 10,
          processed_count = None, total_files = None, eta_seconds = None,
          error = Some []\<rparr> = Some [] \<and>
   scan_error_banner (render \<lparr>path = ''/data'', forceReprocess = False,
       status = Some \<lparr>is_active = Some True, current_file = None, progress_percent = Some 10,
                      processed_count = None, total_files = None, eta_seconds = None,
                      error = Some []\<rparr>,
       ui_error = [], starting = False\<rparr>) = None \<and>
   progress (render \<lparr>path = ''/data'', forceReprocess = False,
       status = Some \<lparr>is_active = Some True, current_file = None, progress_percent = Some 10,
                      processed_count = None, total_files = None, eta_seconds = None,
                      error = Some []\<rparr>,
       ui_error = [], starting = False\<rparr>) \<noteq> None"
  by (simp add: render_def chain_def)

text \<open>
  Claim C3, amended. For every state of the panel: the Start button is rendered exactly
  when the status is not active, the progress view (current file, percent, bar, counts,
  ETA) exactly when it is active, and the scan-error banner exactly when the status
  carries a non-empty error, whose text it shows after "Background Scan Error: ". So idle,
  running and failed-with-a-message are told apart by what is rendered, and a running
  scan that reports a non-empty error shows the banner above its progress bar.
\<close>

theorem scan_view_states:
  "(start_btn (render s) \<noteq> None \<longleftrightarrow> \<not> truthy_bool (chain (status s) is_active)) \<and>
   (progress (render s) \<noteq> None \<longleftrightarrow> truthy_bool (chain (status s) is_active)) \<and>
   (truthy_bool (chain (status s) is_active) \<longrightarrow>
      progress (render s) = Some (render_progress (status s))) \<and>
   (scan_error_banner (render s) = Some b \<longleftrightarrow>
      (\<exists>d e. status s = Some d \<and> error d = Some e \<and> e \<noteq> [] \<and>
             b = ''Background Scan Error: '' @ e))"
  by (cases "status s") (auto simp: render_def chain_def split: option.splits)

theorem scan_view_states_witness:
  "start_btn (render \<lparr>path = ''/data'', forceReprocess = False,
       status = Some \<lparr>is_active = Some True, current_file = Some ''/data/a.png'',
                      progress_percent = Some 50, processed_count = Some 1,
                      total_files = Some 2, eta_seconds = Some 3, error = Some ''disk''\<rparr>,
       ui_error = [], starting = False\<rparr>) = None \<and>
   progress (render \<lparr>path = ''/data'', forceReprocess = False,
       status = Some \<lparr>is_active = Some True, current_file = Some ''/data/a.png'',
                      progress_percent = Some 50, processed_count = Some 1,
                      total_files = Some 2, eta_seconds = Some 3, error = Some ''disk''\<rparr>,
       ui_error = [], starting = False\<rparr>) \<noteq> None \<and>
   scan_error_banner (render \<lparr>path = ''/data'', forceReprocess = False,
       status = Some \<lparr>is_active = Some True, current_file = Some ''/data/a.png'',
                      progress_percent = Some 50, processed_count = Some 1,
                      total_files = Some 2, eta_seconds = Some 3, error = Some ''disk''\<rparr>,
       ui_error = [], starting = False\<rparr>) = Some ''Background Scan Error: disk''"
  using scan_view_states[of "\<lparr>path = ''/data'', forceReprocess = False,
       status = Some \<lparr>is_active = Some True, current_file = Some ''/data/a.png'',
                      progress_percent = Some 50, processed_count = Some 1,
                      total_files = Some 2, eta_seconds = Some 3, error = Some ''disk''\<rparr>,
       ui_error = [], starting = False\<rparr>" "''Background Scan Error: disk''"]
  by (simp add: chain_def)

text \<open>
  Claim C8. When the target path is empty or consists of whitespace only, \<open>handleStart\<close>
  returns without a request and without changing the panel's state, and a rendered Start
  button is disabled; and whatever the path, a request that \<open>handleStart\<close> sends carries
  a target path with a character that is not whitespace.
\<close>

theorem blank_path_fails_fast:
  assumes "\<forall>c \<in> set (path s). is_js_space c"
  shows "handleStart s r = (s, []) \<and>
         (\<forall>b. start_btn (render s) = Some b \<longrightarrow> btn_disabled b) \<and>
         (\<forall>s' (r' :: 'a reply) req. req \<in> set (snd (handleStart s' r')) \<longrightarrow>
            (\<exists>p. (\<exists>c \<in> set p. \<not> is_js_space c) \<and>
                 body req = Some [(''target_path'', JString p),
                                  (''force_reprocess'', JBoolean (forceReprocess s'))]))"
proof -
  from assms have t: "trim (path s) = []" by (simp add: trim_eq_Nil)
  then have 1: "handleStart s r = (s, [])" by (simp add: handleStart_def)
  have 2: "\<forall>b. start_btn (render s) = Some b \<longrightarrow> btn_disabled b"
    using t by (auto simp: render_def split: if_splits)
  have 3: "\<forall>s' (r' :: 'a reply) req. req \<in> set (snd (handleStart s' r')) \<longrightarrow>
            (\<exists>p. (\<exists>c \<in> set p. \<not> is_js_space c) \<and>
                 body req = Some [(''target_path'', JString p),
                                  (''force_reprocess'', JBoolean (forceReprocess s'))])"
  proof (intro allI impI)
    fix s' and r' :: "'a reply" and req
    assume "req \<in> set (snd (handleStart s' r'))"
    from handleStart_requests[OF this] trim_not_blank[of "path s'"]
    show "\<exists>p. (\<exists>c \<in> set p. \<not> is_js_space c) \<and>
                 body req = Some [(''target_path'', JString p),
                                  (''force_reprocess'', JBoolean (forceReprocess s'))]"
      by auto
  qed
  from 1 2 3 show ?thesis by blast
qed

theorem blank_path_fails_fast_witness:
  "handleStart \<lparr>path = [CHR '' '', CHR 0x09], forceReprocess = True, status = None,
                ui_error = [], starting = False\<rparr> (Thrown ''down'' :: unit reply)
     = (\<lparr>path = [CHR '' '', CHR 0x09], forceReprocess = True, status = None, ui_error = [],
         starting = False\<rparr>, []) \<and>
   start_btn (render \<lparr>path = [CHR '' '', CHR 0x09], forceReprocess = True, status = None,
                      ui_error = [], starting = False\<rparr>)
     = Some \<lparr>btn_disabled = True, btn_spinner = False\<rparr> \<and>
   snd (handleStart \<lparr>path = '' /data '', forceReprocess = False, status = None,
                     ui_error = [], starting = False\<rparr> (Response True (Inr ())))
     = [Request ''POST'' ''/scan/start'' []
          (Some [(''target_path'', JString ''/data''), (''force_reprocess'', JBoolean False)])]"
  using blank_path_fails_fast[of "\<lparr>path = [CHR '' '', CHR 0x09], forceReprocess = True,
      status = None, ui_error = [], starting = False\<rparr>" "Thrown ''down'' :: unit reply"]
  by (simp add: is_js_space_def render_def chain_def handleStart_def startScan_def trim_def)

text \<open>
  Claim C10. Whenever the progress view is rendered, the width of the bar's fill is
  \<open>min(100, max(0, progress_percent))\<close>, with 0 in place of a missing
  \<open>progress_percent\<close>, and so lies between 0 and 100 also for a negative or too large
  report.
\<close>

theorem bar_width_clamped:
  "progress (render s) = Some pv \<longrightarrow>
     bar_width pv =
       min 100 (max 0 (case chain (status s) progress_percent of None \<Rightarrow> 0 | Some p \<Rightarrow> p)) \<and>
     0 \<le> bar_width pv \<and> bar_width pv \<le> 100"
  by (auto simp: render_def render_progress_def split: if_splits option.splits)

theorem bar_width_clamped_witness:
  "progress (render \<lparr>path = ''/data'', forceReprocess = False,
       status = Some \<lparr>is_active = Some True, current_file = None,
                      progress_percent = Some 150, processed_count = None,
                      total_files = None, eta_seconds = None, error = None\<rparr>,
       ui_error = [], starting = False\<rparr>)
     = Some \<lparr>scanning_label = ''Preparing...'', percent_label = PctFixed1 150,
              bar_width = 100, files_done = 0, files_total = 0, eta_label = EtaUnknown\<rparr> \<and>
   bar_width \<lparr>scanning_label = ''Preparing...'', percent_label = PctFixed1 150,
              bar_width = 100, files_done = 0, files_total = 0, eta_label = EtaUnknown\<rparr>
     = 100"
  using bar_width_clamped[of "\<lparr>path = ''/data'', forceReprocess = False,
       status = Some \<lparr>is_active = Some True, current_file = None,
                      progress_percent = Some 150, processed_count = None,
                      total_files = None, eta_seconds = None, error = None\<rparr>,
       ui_error = [], starting = False\<rparr>"
      "\<lparr>scanning_label = ''Preparing...'', percent_label = PctFixed1 150,
              bar_width = 100, files_done = 0, files_total = 0, eta_label = EtaUnknown\<rparr>"]
  by (simp add: render_def render_progress_def chain_def formatETA_def)

section \<open>Properties of the chat panel\<close>

text \<open>
  Claim C6. When the chat request fails (\<open>fetch\<close> rejects, the response is not ok, or
  its body does not parse), \<open>chatWithImage\<close> throws, and \<open>handleSend\<close> appends, after the
  user's message, the fixed error message, whatever the reply contained.
\<close>

theorem chat_failure_shown:
  assumes "request_failed r" and "trim (input s) \<noteq> []" and "\<not> isLoading s"
  shows "(\<exists>m. snd (chatWithImage (file_path item) (trim (input s)) r) = Inl m) \<and>
         messages (fst (handleSend item s r)) =
           messages s @ [\<lparr>msg_role = User, content = trim (input s)\<rparr>, chat_error_message] \<and>
         \<not> isLoading (fst (handleSend item s r))"
  using assms
  by (cases r) (auto simp: chatWithImage_def handleSend_def Let_def isl_def split: sum.splits)

theorem chat_failure_shown_witness:
  "messages (fst (handleSend
      \<lparr>item_id = 7, file_path = ''/data/a.png'', media_type = ''image'', width = None,
       height = None, tags = [], character_tags = [], series_tags = [], snippet = None\<rparr>
      \<lparr>messages = [greeting], input = ''who?'', isLoading = False\<rparr>
      (Response False (Inr ''a made-up answer''))))
   = [greeting, \<lparr>msg_role = User, content = ''who?''\<rparr>, chat_error_message]"
  using chat_failure_shown[of "Response False (Inr ''a made-up answer'')"
      "\<lparr>messages = [greeting], input = ''who?'', isLoading = False\<rparr>"
      "\<lparr>item_id = 7, file_path = ''/data/a.png'', media_type = ''image'', width = None,
       height = None, tags = [], character_tags = [], series_tags = [], snippet = None\<rparr>"]
  by (simp add: trim_def is_js_space_def)

text \<open>
  Claim C7. Every request that \<open>handleSend\<close> sends is one POST to \<open>/gallery/chat\<close> whose
  body has exactly the fields \<open>file_path\<close>, the selected item's, and \<open>prompt\<close>, the
  trimmed input; it is the same request whatever the transcript holds, and at most one
  is sent. The transcript is the panel's own state, and the effect on a newly selected
  item resets it to the greeting alone.
\<close>

theorem chat_single_turn:
  "(\<forall>req \<in> set (snd (handleSend item s r)).
      req = Request ''POST'' ''/gallery/chat'' []
              (Some [(''file_path'', JString (file_path item)),
                     (''prompt'', JString (trim (input s)))])) \<and>
   snd (handleSend item (s\<lparr>messages := ms\<rparr>) r) = snd (handleSend item s r) \<and>
   length (snd (handleSend item s r)) \<le> 1 \<and>
   messages (item_effect (Some item') s) = [greeting]"
  by (cases r) (auto simp: chatWithImage_def handleSend_def Let_def item_effect_def split: sum.splits)

theorem chat_single_turn_witness:
  "snd (handleSend
      \<lparr>item_id = 7, file_path = ''/data/a.png'', media_type = ''image'', width = None,
       height = None, tags = [], character_tags = [], series_tags = [], snippet = None\<rparr>
      \<lparr>messages = [greeting, \<lparr>msg_role = User, content = ''earlier''\<rparr>,
                   \<lparr>msg_role = Assistant, content = ''reply''\<rparr>],
       input = '' who? '', isLoading = False\<rparr>
      (Response True (Inr ''a cat'')))
   = [Request ''POST'' ''/gallery/chat'' []
        (Some [(''file_path'', JString ''/data/a.png''), (''prompt'', JString ''who?'')])]"
  using chat_single_turn[of
      "\<lparr>item_id = 7, file_path = ''/data/a.png'', media_type = ''image'', width = None,
       height = None, tags = [], character_tags = [], series_tags = [], snippet = None\<rparr>"
      "\<lparr>messages = [greeting, \<lparr>msg_role = User, content = ''earlier''\<rparr>,
                   \<lparr>msg_role = Assistant, content = ''reply''\<rparr>],
       input = '' who? '', isLoading = False\<rparr>"
      "Response True (Inr ''a cat'')"]
  by (simp add: trim_def is_js_space_def handleSend_def chatWithImage_def Let_def)

section \<open>Properties of the gallery page\<close>

lemma trim_nonempty: "trim qs \<noteq> [] \<Longrightarrow> qs \<noteq> []"
  by (auto simp: trim_def)

lemma filterResults_set:
  "item \<in> set (filterResults f results) \<Longrightarrow>
     item \<in> set results \<and>
     (truthy_str (flt_media_type f) \<longrightarrow> media_type item = the (flt_media_type f)) \<and>
     (truthy_str (flt_character f) \<longrightarrow> the (flt_character f) \<in> set (character_tags item)) \<and>
     (truthy_str (flt_series f) \<longrightarrow> the (flt_series f) \<in> set (series_tags item))"
  by (auto simp: filterResults_def Let_def split: if_splits)

text \<open>
  Claim C4, as stated, at two inputs of the page's \<open>handleSearch\<close>, both from the state
  the page is in once its mount has loaded a full first page of 50 items, where
  \<open>hasMore\<close> is true. The query of one space is not empty, yet no search request is sent:
  the one request is the browse request \<open>GET /gallery/\<close>, and \<open>hasMore\<close> is true
  afterwards. And for the query "cat" whose search request fails, \<open>hasMore\<close> is not set
  to false: it keeps the value true it had.
\<close>

theorem blank_or_failed_search:
  "'' '' \<noteq> [] \<and>
   hasMore (fst (mount (Response True (Inr (replicate 50
      \<lparr>item_id = 1, file_path = ''/data/a.png'', media_type = ''image'', width = None,
       height = None, tags = [], character_tags = [], series_tags = [],
       snippet = None\<rparr>))))) \<and>
   snd (handleSearch
      (fst (mount (Response True (Inr (replicate 50
        \<lparr>item_id = 1, file_path = ''/data/a.png'', media_type = ''image'', width = None,
         height = None, tags = [], character_tags = [], series_tags = [],
         snippet = None\<rparr>)))))
      '' '' (Response True (Inr (replicate 50
        \<lparr>item_id = 1, file_path = ''/data/a.png'', media_type = ''image'', width = None,
         height = None, tags = [], character_tags = [], series_tags = [],
         snippet = None\<rparr>))))
     = [Request ''GET'' ''/gallery/'' [(''limit'', QNum 50)] None] \<and>
   hasMore (fst (handleSearch
      (fst (mount (Response True (Inr (replicate 50
        \<lparr>item_id = 1, file_path = ''/data/a.png'', media_type = ''image'', width = None,
         height = None, tags = [], character_tags = [], series_tags = [],
         snippet = None\<rparr>)))))
      '' '' (Response True (Inr (replicate 50
        \<lparr>item_id = 1, file_path = ''/data/a.png'', media_type = ''image'', width = None,
         height = None, tags = [], character_tags = [], series_tags = [],
         snippet = None\<rparr>))))) \<and>
   snd (handleSearch
      (fst (mount (Response True (Inr (replicate 50
        \<lparr>item_id = 1, file_path = ''/data/a.png'', media_type = ''image'', width = None,
         height = None, tags = [], character_tags = [], series_tags = [],
         snippet = None\<rparr>)))))
      ''cat'' (Response False (Inr [])))
     = [Request ''POST'' ''/gallery/search'' [(''query'', QStr ''cat''), (''top_k'', QNum 50)] None] \<and>
   hasMore (fst (handleSearch
      (fst (mount (Response True (Inr (replicate 50
        \<lparr>item_id = 1, file_path = ''/data/a.png'', media_type = ''image'', width = None,
         height = None, tags = [], character_tags = [], series_tags = [],
         snippet = None\<rparr>)))))
      ''cat'' (Response False (Inr []))))"
  by (simp add: mount_def initial_home_def onFilterChange_def handleSearch_def loadMedia_def
      fetchMedia_def searchMedia_def Let_def trim_def is_js_space_def num_param_def
      str_param_def)

text \<open>
  Claim C4, amended. In the page, for every query that is not blank (its trimmed form is
  not empty), \<open>handleSearch\<close> sends exactly one request, \<open>POST /gallery/search\<close> with the
  query and \<open>top_k = 50\<close>; when that request succeeds \<open>hasMore\<close> is set to false; and
  whether it succeeds or fails, the query is the current search, so that neither
  \<open>handleLoadMore\<close> nor the scroll effect sends a further request. A whitespace-only
  query sends the browse request \<open>GET /gallery/\<close> instead, with limit 50 and the
  sidebar's filters, and on success sets \<open>hasMore\<close> to whether 50 items came back. In the
  gallery component, for every non-empty \<open>q\<close>, \<open>fetchGallery\<close> sends
  \<open>POST /api/gallery/search\<close> with \<open>top_k = 50\<close> and \<open>getNextPageParam\<close> returns
  \<open>undefined\<close>.
\<close>

theorem search_single_page:
  "(trim qs \<noteq> [] \<longrightarrow>
      snd (handleSearch s qs r) =
        [Request ''POST'' ''/gallery/search'' [(''query'', QStr qs), (''top_k'', QNum 50)] None] \<and>
      (\<not> request_failed r \<longrightarrow> \<not> hasMore (fst (handleSearch s qs r))) \<and>
      currentSearch (fst (handleSearch s qs r)) = qs \<and>
      snd (handleLoadMore (fst (handleSearch s qs r)) r') = [] \<and>
      snd (scroll_effect inView (fst (handleSearch s qs r)) r') = []) \<and>
   (trim qs = [] \<longrightarrow>
      snd (handleSearch s qs r) =
        [Request ''GET'' ''/gallery/''
           ([(''limit'', QNum 50)] @ str_param ''character'' (flt_character (filters s)) @
            str_param ''series'' (flt_series (filters s)) @
            str_param ''media_type'' (flt_media_type (filters s))) None] \<and>
      (\<forall>data. r = Response True (Inr data) \<longrightarrow>
         hasMore (fst (handleSearch s qs r)) = (length data = 50))) \<and>
   (qk_q key = Some qs \<and> qs \<noteq> [] \<longrightarrow>
      fst (fetchGallery pageParam key r) =
        Request ''POST'' ''/api/gallery/search'' [(''query'', QStr qs), (''top_k'', QNum 50)] None \<and>
      getNextPageParam key lastPage allPages = None)"
proof -
  have a: "trim qs \<noteq> [] \<longrightarrow>
      snd (handleSearch s qs r) =
        [Request ''POST'' ''/gallery/search'' [(''query'', QStr qs), (''top_k'', QNum 50)] None] \<and>
      (\<not> request_failed r \<longrightarrow> \<not> hasMore (fst (handleSearch s qs r))) \<and>
      currentSearch (fst (handleSearch s qs r)) = qs"
    by (cases r) (auto simp: handleSearch_def searchMedia_def Let_def isl_def split: sum.splits)
  have b: "trim qs \<noteq> [] \<longrightarrow>
      snd (handleLoadMore (fst (handleSearch s qs r)) r') = [] \<and>
      snd (scroll_effect inView (fst (handleSearch s qs r)) r') = []"
    using a trim_nonempty[of qs] by (simp add: handleLoadMore_def scroll_effect_def)
  have w: "trim qs = [] \<longrightarrow>
      snd (handleSearch s qs r) =
        [Request ''GET'' ''/gallery/''
           ([(''limit'', QNum 50)] @ str_param ''character'' (flt_character (filters s)) @
            str_param ''series'' (flt_series (filters s)) @
            str_param ''media_type'' (flt_media_type (filters s))) None] \<and>
      (\<forall>data. r = Response True (Inr data) \<longrightarrow>
         hasMore (fst (handleSearch s qs r)) = (length data = 50))"
    by (simp add: handleSearch_def loadMedia_def fetchMedia_def Let_def num_param_def str_param_def)
  have c: "qk_q key = Some qs \<and> qs \<noteq> [] \<longrightarrow>
      fst (fetchGallery pageParam key r) =
        Request ''POST'' ''/api/gallery/search'' [(''query'', QStr qs), (''top_k'', QNum 50)] None \<and>
      getNextPageParam key lastPage allPages = None"
    by (simp add: fetchGallery_def getNextPageParam_def)
  from a b w c show ?thesis by blast
qed

theorem search_single_page_witness:
  "snd (handleLoadMore
      (fst (mount (Response True (Inr (replicate 50
        \<lparr>item_id = 1, file_path = ''/data/a.png'', media_type = ''image'', width = None,
         height = None, tags = [], character_tags = [], series_tags = [],
         snippet = None\<rparr>))))) (Response True (Inr [])))
     = [Request ''GET'' ''/gallery/'' [(''limit'', QNum 50), (''offset'', QNum 50)] None] \<and>
   snd (handleSearch
      (fst (mount (Response True (Inr (replicate 50
        \<lparr>item_id = 1, file_path = ''/data/a.png'', media_type = ''image'', width = None,
         height = None, tags = [], character_tags = [], series_tags = [],
         snippet = None\<rparr>)))))
      ''cat'' (Response True (Inr (replicate 50
        \<lparr>item_id = 1, file_path = ''/data/a.png'', media_type = ''image'', width = None,
         height = None, tags = [], character_tags = [], series_tags = [],
         snippet = None\<rparr>))))
     = [Request ''POST'' ''/gallery/search'' [(''query'', QStr ''cat''), (''top_k'', QNum 50)] None] \<and>
   \<not> hasMore (fst (handleSearch
      (fst (mount (Response True (Inr (replicate 50
        \<lparr>item_id = 1, file_path = ''/data/a.png'', media_type = ''image'', width = None,
         height = None, tags = [], character_tags = [], series_tags = [],
         snippet = None\<rparr>)))))
      ''cat'' (Response True (Inr (replicate 50
        \<lparr>item_id = 1, file_path = ''/data/a.png'', media_type = ''image'', width = None,
         height = None, tags = [], character_tags = [], series_tags = [],
         snippet = None\<rparr>))))) \<and>
   snd (handleLoadMore (fst (handleSearch
      (fst (mount (Response True (Inr (replicate 50
        \<lparr>item_id = 1, file_path = ''/data/a.png'', media_type = ''image'', width = None,
         height = None, tags = [], character_tags = [], series_tags = [],
         snippet = None\<rparr>)))))
      ''cat'' (Response True (Inr (replicate 50
        \<lparr>item_id = 1, file_path = ''/data/a.png'', media_type = ''image'', width = None,
         height = None, tags = [], character_tags = [], series_tags = [],
         snippet = None\<rparr>))))) (Response True (Inr []))) = [] \<and>
   getNextPageParam \<lparr>qk_q = None, qk_character = None, qk_series = None,
                     qk_media_type = None\<rparr>
      (replicate 50
        \<lparr>item_id = 1, file_path = ''/data/a.png'', media_type = ''image'', width = None,
         height = None, tags = [], character_tags = [], series_tags = [],
         snippet = None\<rparr>)
      [replicate 50
        \<lparr>item_id = 1, file_path = ''/data/a.png'', media_type = ''image'', width = None,
         height = None, tags = [], character_tags = [], series_tags = [],
         snippet = None\<rparr>] = Some 50 \<and>
   getNextPageParam \<lparr>qk_q = Some ''cat'', qk_character = None, qk_series = None,
                     qk_media_type = None\<rparr>
      (replicate 50
        \<lparr>item_id = 1, file_path = ''/data/a.png'', media_type = ''image'', width = None,
         height = None, tags = [], character_tags = [], series_tags = [],
         snippet = None\<rparr>)
      [replicate 50
        \<lparr>item_id = 1, file_path = ''/data/a.png'', media_type = ''image'', width = None,
         height = None, tags = [], character_tags = [], series_tags = [],
         snippet = None\<rparr>] = None"
  using search_single_page[of "''cat''"
      "fst (mount (Response True (Inr (replicate 50
        \<lparr>item_id = 1, file_path = ''/data/a.png'', media_type = ''image'', width = None,
         height = None, tags = [], character_tags = [], series_tags = [],
         snippet = None\<rparr>))))"
      "Response True (Inr (replicate 50
        \<lparr>item_id = 1, file_path = ''/data/a.png'', media_type = ''image'', width = None,
         height = None, tags = [], character_tags = [], series_tags = [],
         snippet = None\<rparr>))"
      "Response True (Inr [])" True
      "\<lparr>qk_q = Some ''cat'', qk_character = None, qk_series = None, qk_media_type = None\<rparr>"
      0
      "replicate 50
        \<lparr>item_id = 1, file_path = ''/data/a.png'', media_type = ''image'', width = None,
         height = None, tags = [], character_tags = [], series_tags = [],
         snippet = None\<rparr>"
      "[replicate 50
        \<lparr>item_id = 1, file_path = ''/data/a.png'', media_type = ''image'', width = None,
         height = None, tags = [], character_tags = [], series_tags = [],
         snippet = None\<rparr>]"]
  by (simp add: trim_def is_js_space_def mount_def initial_home_def onFilterChange_def
      loadMedia_def fetchMedia_def handleLoadMore_def Let_def num_param_def str_param_def
      getNextPageParam_def)

text \<open>
  Claim C9. When a search with a non-blank query is submitted and its response arrives,
  the list the page stores and displays is the response filtered by the sidebar's
  filters: every item of it comes from the response and satisfies each active filter
  (one with a non-empty value): its \<open>media_type\<close> equals the media-type filter, the
  character filter is among its \<open>character_tags\<close> and the series filter among its
  \<open>series_tags\<close>.
\<close>

theorem search_results_filtered:
  assumes "trim qs \<noteq> []" and "r = Response True (Inr results)"
  shows "media (fst (handleSearch s qs r)) = filterResults (filters s) results \<and>
         (home_error s = [] \<longrightarrow>
            main_area (fst (handleSearch s qs r)) = GridView (filterResults (filters s) results) False) \<and>
         (\<forall>item \<in> set (media (fst (handleSearch s qs r))).
            item \<in> set results \<and>
            (\<forall>v. flt_media_type (filters s) = Some v \<and> v \<noteq> [] \<longrightarrow> media_type item = v) \<and>
            (\<forall>v. flt_character (filters s) = Some v \<and> v \<noteq> [] \<longrightarrow> v \<in> set (character_tags item)) \<and>
            (\<forall>v. flt_series (filters s) = Some v \<and> v \<noteq> [] \<longrightarrow> v \<in> set (series_tags item)))"
proof -
  have m: "media (fst (handleSearch s qs r)) = filterResults (filters s) results"
    using assms by (simp add: handleSearch_def searchMedia_def Let_def)
  have v: "home_error s = [] \<longrightarrow>
            main_area (fst (handleSearch s qs r)) = GridView (filterResults (filters s) results) False"
    using assms by (simp add: handleSearch_def searchMedia_def Let_def main_area_def)
  have f: "\<forall>item \<in> set (filterResults (filters s) results).
            item \<in> set results \<and>
            (\<forall>v. flt_media_type (filters s) = Some v \<and> v \<noteq> [] \<longrightarrow> media_type item = v) \<and>
            (\<forall>v. flt_character (filters s) = Some v \<and> v \<noteq> [] \<longrightarrow> v \<in> set (character_tags item)) \<and>
            (\<forall>v. flt_series (filters s) = Some v \<and> v \<noteq> [] \<longrightarrow> v \<in> set (series_tags item))"
    using filterResults_set[of _ "filters s" results] by fastforce
  from m v f show ?thesis by simp
qed

theorem search_results_filtered_witness:
  "media (fst (handleSearch
      \<lparr>media = [], selectedItem = None, loading = False, home_error = [],
       filters = \<lparr>flt_character = Some ''rei'', flt_series = None, flt_media_type = Some ''video''\<rparr>,
       currentSearch = [], offset = 0, hasMore = True, isLoadingMore = False\<rparr>
      ''cat''
      (Response True (Inr
        [\<lparr>item_id = 1, file_path = ''/data/a.png'', media_type = ''image'', width = None,
          height = None, tags = [], character_tags = [''rei''], series_tags = [],
          snippet = None\<rparr>,
         \<lparr>item_id = 2, file_path = ''/data/b.mp4'', media_type = ''video'', width = None,
          height = None, tags = [], character_tags = [''rei''], series_tags = [''eva''],
          snippet = Some ''hello''\<rparr>]))))
   = [\<lparr>item_id = 2, file_path = ''/data/b.mp4'', media_type = ''video'', width = None,
       height = None, tags = [], character_tags = [''rei''], series_tags = [''eva''],
       snippet = Some ''hello''\<rparr>]"
  using search_results_filtered[of "''cat''" _ 
        "[\<lparr>item_id = 1, file_path = ''/data/a.png'', media_type = ''image'', width = None,
          height = None, tags = [], character_tags = [''rei''], series_tags = [],
          snippet = None\<rparr>,
         \<lparr>item_id = 2, file_path = ''/data/b.mp4'', media_type = ''video'', width = None,
          height = None, tags = [], character_tags = [''rei''], series_tags = [''eva''],
          snippet = Some ''hello''\<rparr>]"
      "\<lparr>media = [], selectedItem = None, loading = False, home_error = [],
       filters = \<lparr>flt_character = Some ''rei'', flt_series = None, flt_media_type = Some ''video''\<rparr>,
       currentSearch = [], offset = 0, hasMore = True, isLoadingMore = False\<rparr>", OF _ refl]
  by (simp add: trim_def is_js_space_def filterResults_def)

section \<open>Snippets\<close>

lemma first_per_file_subset: "set (first_per_file seen cs) \<subseteq> set cs"
  by (induction seen cs rule: first_per_file.induct) auto

lemma segment_text_None: "segment_text ow = None \<longleftrightarrow> ow = WholeFile"
  by (cases ow) auto

text \<open>
  Claim C5, as stated, at an item whose snippet field is present and holds the empty
  string: the card renders no snippet block.
\<close>

theorem empty_snippet_not_rendered:
  "snippet \<lparr>item_id = 2, file_path = ''/data/b.mp4'', media_type = ''video'', width = None,
       height = None, tags = [], character_tags = [], series_tags = [],
       snippet = Some []\<rparr> = Some [] \<and>
   snippet_block (MediaCard
      \<lparr>item_id = 2, file_path = ''/data/b.mp4'', media_type = ''video'', width = None,
       height = None, tags = [], character_tags = [], series_tags = [],
       snippet = Some []\<rparr> False) = None"
  by (simp add: MediaCard_def)

text \<open>
  Claim C5, amended. On the server (modelled from the specification), every item of a
  search result stems from a retrieved record that scores highest for its MediaFile, and
  its snippet is that record's Segment text: present when the record belongs to a
  keyframe description or a transcript chunk, absent when it belongs to the file itself.
  In the client, the card renders the snippet block exactly when the item's snippet is
  present and not the empty string, and the block shows the snippet.
\<close>

theorem snippet_shown:
  "(\<forall>it \<in> set (search_results cands).
      \<exists>c \<in> set cands. wins cands c \<and> si_file it = emb_file (fst c) \<and> si_score it = snd c \<and>
        si_snippet it = segment_text (emb_owner (fst c)) \<and>
        (si_snippet it = None \<longleftrightarrow> emb_owner (fst c) = WholeFile)) \<and>
   (snippet_block (MediaCard item hov) \<noteq> None \<longleftrightarrow> (\<exists>t. snippet item = Some t \<and> t \<noteq> [])) \<and>
   (snippet_block (MediaCard item hov) = Some t \<longrightarrow> snippet item = Some t)"
proof -
  have a: "\<forall>it \<in> set (search_results cands).
      \<exists>c \<in> set cands. wins cands c \<and> si_file it = emb_file (fst c) \<and> si_score it = snd c \<and>
        si_snippet it = segment_text (emb_owner (fst c)) \<and>
        (si_snippet it = None \<longleftrightarrow> emb_owner (fst c) = WholeFile)"
  proof
    fix it assume "it \<in> set (search_results cands)"
    then obtain c where c: "c \<in> set (first_per_file [] (filter (wins cands) cands))"
      and it: "it = \<lparr>si_file = emb_file (fst c), si_score = snd c,
                      si_snippet = segment_text (emb_owner (fst c))\<rparr>"
      by (auto simp: search_results_def)
    from c first_per_file_subset have "c \<in> set (filter (wins cands) cands)" by blast
    then have "c \<in> set cands" "wins cands c" by simp_all
    with it show "\<exists>c \<in> set cands. wins cands c \<and> si_file it = emb_file (fst c) \<and>
        si_score it = snd c \<and> si_snippet it = segment_text (emb_owner (fst c)) \<and>
        (si_snippet it = None \<longleftrightarrow> emb_owner (fst c) = WholeFile)"
      by (auto simp: segment_text_None)
  qed
  have b: "snippet_block (MediaCard item hov) \<noteq> None \<longleftrightarrow> (\<exists>t. snippet item = Some t \<and> t \<noteq> [])"
    by (cases "snippet item") (auto simp: MediaCard_def)
  have c: "snippet_block (MediaCard item hov) = Some t \<longrightarrow> snippet item = Some t"
    by (cases "snippet item") (auto simp: MediaCard_def split: if_splits)
  from a b c show ?thesis by blast
qed

theorem snippet_shown_witness:
  "search_results
     [(\<lparr>emb_id = 5, emb_file = 2, emb_owner = WholeFile\<rparr>, 1 / 2),
      (\<lparr>emb_id = 3, emb_file = 1, emb_owner = WholeFile\<rparr>, 1 / 4),
      (\<lparr>emb_id = 4, emb_file = 1, emb_owner = TranscriptChunk 0 2 ''hello there''\<rparr>, 3 / 4)]
   = [\<lparr>si_file = 1, si_score = 3 / 4, si_snippet = Some ''hello there''\<rparr>,
      \<lparr>si_file = 2, si_score = 1 / 2, si_snippet = None\<rparr>] \<and>
   snippet_block (MediaCard
      \<lparr>item_id = 1, file_path = ''/data/b.mp4'', media_type = ''video'', width = None,
       height = None, tags = [], character_tags = [], series_tags = [],
       snippet = Some ''hello there''\<rparr> False) = Some ''hello there''"
  using snippet_shown[of
     "[(\<lparr>emb_id = 5, emb_file = 2, emb_owner = WholeFile\<rparr>, 1 / 2),
      (\<lparr>emb_id = 3, emb_file = 1, emb_owner = WholeFile\<rparr>, 1 / 4),
      (\<lparr>emb_id = 4, emb_file = 1, emb_owner = TranscriptChunk 0 2 ''hello there''\<rparr>, 3 / 4)]"
      "\<lparr>item_id = 1, file_path = ''/data/b.mp4'', media_type = ''video'', width = None,
       height = None, tags = [], character_tags = [], series_tags = [],
       snippet = Some ''hello there''\<rparr>" False "''hello there''"]
  by (simp add: search_results_def wins_def MediaCard_def less_eq_prod_def less_prod_def)

section \<open>Consistency of the two stores\<close>

lemma find_map_path:
  "find (\<lambda>r. mf_path r = p) (map (\<lambda>r. if mf_path r = p then r\<lparr>mf_hash := h, mf_status := t\<rparr> else r) rs)
     = map_option (\<lambda>r. r\<lparr>mf_hash := h, mf_status := t\<rparr>) (find (\<lambda>r. mf_path r = p) rs)"
  by (induction rs) auto

lemma find_snoc:
  "find P (xs @ [y]) = (case find P xs of None \<Rightarrow> (if P y then Some y else None) | Some x \<Rightarrow> Some x)"
  by (induction xs) auto

lemma find_file_upsert: "\<exists>r. find_file (upsert_row p h t st) p = Some r"
proof (cases "find_file st p")
  case None
  then show ?thesis
    by (simp add: upsert_row_def find_file_def find_snoc)
next
  case (Some a)
  then show ?thesis
    by (simp add: upsert_row_def find_file_def find_map_path)
qed

lemma upsert_ids:
  "metadata_ids (upsert_row p h t st) f = metadata_ids st f"
  "index_ids (upsert_row p h t st) f = index_ids st f"
  by (simp_all add: upsert_row_def metadata_ids_def index_ids_def split: option.splits)

lemma delete_ids:
  "metadata_ids (delete_old f st) g = (if g = f then [] else metadata_ids st g)"
  "index_ids (delete_old f st) g = (if g = f then [] else index_ids st g)"
  by (auto simp: delete_old_def metadata_ids_def index_ids_def filter_empty_conv
      intro!: arg_cong[where f="map emb_id"] arg_cong[where f="map fst"] filter_cong)

lemma new_records_ids:
  "map emb_id (filter (\<lambda>e. emb_file e = g)
      (map (\<lambda>(i, ow, v). \<lparr>emb_id = i, emb_file = f, emb_owner = ow\<rparr>) ys))
   = (if g = f then map fst ys else [])"
  by (induction ys) auto

lemma new_vectors_ids:
  "map fst (filter (\<lambda>e. fst (snd e) = g) (map (\<lambda>(i, ow, v). (i, f, v)) ys))
   = (if g = f then map fst ys else [])"
  by (induction ys) auto

lemma insert_records_ids:
  "metadata_ids (insert_records f xs st) g =
     metadata_ids st g @ (if g = f then map fst (enumerate (next_id st) xs) else [])"
  "index_ids (insert_records f xs st) g = index_ids st g"
  "next_id (insert_records f xs st) = next_id st"
  by (simp_all add: insert_records_def metadata_ids_def index_ids_def new_records_ids)

lemma insert_vectors_ids:
  "index_ids (insert_vectors f xs st) g =
     index_ids st g @ (if g = f then map fst (enumerate (next_id st) xs) else [])"
  "metadata_ids (insert_vectors f xs st) g = metadata_ids st g"
  by (simp_all add: insert_vectors_def metadata_ids_def index_ids_def new_vectors_ids)

lemma delete_keeps:
  "next_id (delete_old f st) = next_id st"
  "media_files (delete_old f st) = media_files st"
  "media_files (insert_records f xs st) = media_files st"
  "media_files (insert_vectors f xs st) = media_files st"
  by (simp_all add: delete_old_def insert_records_def insert_vectors_def)

lemma writes_4:
  "writes 4 p h xs st =
     write_step 3 p h xs (write_step 2 p h xs (write_step 1 p h xs (write_step 0 p h xs st)))"
proof -
  have "[0..<4] = [0, 1, 2, 3::nat]" by (simp add: upt_rec)
  then show ?thesis by (simp add: writes_def)
qed

lemma agree_writes_4:
  assumes "agree st"
  shows "agree (writes 4 p h xs st)"
proof -
  let ?s1 = "upsert_row p h Processed st"
  obtain r where r: "find_file ?s1 p = Some r" using find_file_upsert by blast
  let ?f = "mf_id r"
  let ?s2 = "delete_old ?f ?s1"
  let ?s3 = "insert_records ?f xs ?s2"
  let ?s4 = "insert_vectors ?f xs ?s3"
  have f2: "find_file ?s2 p = Some r" using r by (simp add: find_file_def delete_keeps)
  have f3: "find_file ?s3 p = Some r" using r by (simp add: find_file_def delete_keeps)
  have w: "writes 4 p h xs st = ?s4"
    using r f2 f3 by (simp add: writes_4 write_step_def)
  have "set (metadata_ids ?s4 g) = set (index_ids ?s4 g)" for g
    using assms
    by (simp add: insert_vectors_ids insert_records_ids delete_ids delete_keeps upsert_ids agree_def)
  then show ?thesis by (simp add: w agree_def)
qed

lemma writes_Suc: "writes (Suc k) p h xs st = write_step k p h xs (writes k p h xs st)"
  by (simp add: writes_def)

lemma unit_ok_step: "unit_ok s \<Longrightarrow> unit_ok (step s e)"
proof (cases e)
  case (Discover p h force ex)
  assume "unit_ok s"
  then show ?thesis using Discover
    by (cases ex) (auto simp: unit_ok_def step_def writes_def agree_def upsert_ids split: option.splits)
next
  case WriteStep
  assume "unit_ok s"
  then show ?thesis using WriteStep
    by (auto simp: unit_ok_def step_def writes_Suc split: option.splits)
next
  case Commit
  assume "unit_ok s"
  then show ?thesis using Commit
    by (auto simp: unit_ok_def step_def agree_writes_4 split: option.splits)
next
  case Crash
  assume "unit_ok s"
  then show ?thesis using Crash by (simp add: unit_ok_def step_def)
qed

lemma unit_ok_run: "unit_ok (run evs)"
proof (induction evs rule: rev_induct)
  case Nil
  show ?case
    by (simp add: run_def unit_ok_def agree_def empty_stores_def metadata_ids_def index_ids_def)
next
  case (snoc e evs)
  have "run (evs @ [e]) = step (run evs) e" by (simp add: run_def)
  with snoc unit_ok_step show ?case by simp
qed

text \<open>
  Claim C1. In every state that the scan orchestrator (modelled from the specification)
  reaches by discovering files, performing the write steps of a per-file atomic unit,
  committing, and crashing at any moment, also between two write steps, the stores are
  consistent: for every MediaFile with status \<open>processed\<close>, the EmbeddingRecord ids
  reachable from it in the Metadata Store are the ids present in the Vector Index for
  it. The two sets agree for every MediaFile, whatever its status.
\<close>

theorem stores_consistent:
  "consistent (committed (run evs)) \<and> agree (committed (run evs))"
  using unit_ok_run[of evs] by (simp add: unit_ok_def consistent_def agree_def)

theorem stores_consistent_witness:
  "media_files (committed (run
      [Discover ''/d/a.png'' 11 False (Inr [(WholeFile, [1, 0])]),
       WriteStep, WriteStep, Crash,
       Discover ''/d/a.png'' 11 False (Inr [(WholeFile, [1, 0])]),
       WriteStep, WriteStep, WriteStep, WriteStep, Commit,
       Discover ''/d/a.png'' 11 True
         (Inr [(KeyframeDescription 0 ''a cat'', [0, 1]), (WholeFile, [1, 0])]),
       WriteStep, WriteStep, WriteStep, Crash]))
     = [\<lparr>mf_id = 0, mf_path = ''/d/a.png'', mf_hash = 11, mf_status = Processed\<rparr>] \<and>
   metadata_ids (committed (run
      [Discover ''/d/a.png'' 11 False (Inr [(WholeFile, [1, 0])]),
       WriteStep, WriteStep, Crash,
       Discover ''/d/a.png'' 11 False (Inr [(WholeFile, [1, 0])]),
       WriteStep, WriteStep, WriteStep, WriteStep, Commit,
       Discover ''/d/a.png'' 11 True
         (Inr [(KeyframeDescription 0 ''a cat'', [0, 1]), (WholeFile, [1, 0])]),
       WriteStep, WriteStep, WriteStep, Crash])) 0 = [1] \<and>
   index_ids (committed (run
      [Discover ''/d/a.png'' 11 False (Inr [(WholeFile, [1, 0])]),
       WriteStep, WriteStep, Crash,
       Discover ''/d/a.png'' 11 False (Inr [(WholeFile, [1, 0])]),
       WriteStep, WriteStep, WriteStep, WriteStep, Commit,
       Discover ''/d/a.png'' 11 True
         (Inr [(KeyframeDescription 0 ''a cat'', [0, 1]), (WholeFile, [1, 0])]),
       WriteStep, WriteStep, WriteStep, Crash])) 0 = [1]"
  using stores_consistent[of
      "[Discover ''/d/a.png'' 11 False (Inr [(WholeFile, [1, 0])]),
       WriteStep, WriteStep, Crash,
       Discover ''/d/a.png'' 11 False (Inr [(WholeFile, [1, 0])]),
       WriteStep, WriteStep, WriteStep, WriteStep, Commit,
       Discover ''/d/a.png'' 11 True
         (Inr [(KeyframeDescription 0 ''a cat'', [0, 1]), (WholeFile, [1, 0])]),
       WriteStep, WriteStep, WriteStep, Crash]"]
  by (simp add: run_def step_def empty_stores_def needs_processing_def find_file_def
      write_step_def upsert_row_def delete_old_def insert_records_def insert_vectors_def
      metadata_ids_def index_ids_def)

end
